theory Spec2Isabelle
  imports Complex_Main "HOL-Library.Sublist"
begin

section \<open>ThemeTracker: the theme extraction pipeline and the video classifier\<close>

text \<open>
  The development embeds the data-transforming functions of the two scripts
  \<^verbatim>\<open>ThemesTracker.py\<close> (Reddit posts) and \<^verbatim>\<open>theme-tracker.py\<close> (YouTube videos).

  The texts of the classifier and of the title templates are modelled as \<^typ>\<open>string\<close>,
  read as ASCII text, with the case mappings of Python's \<^verbatim>\<open>str\<close> methods on ASCII
  characters. The text normalizer is generic in the type of characters, and Python's
  character classes and lowercasing are parameters of it, so that its properties hold of
  texts over all of Unicode. A float value is a real number, or NaN; the mean of pandas,
  which rounds, is a parameter. The third-party text functions (NLTK's tokenizer and
  lemmatizer, TextBlob's polarity) are parameters of the functions that call them; they
  return a sum, \<open>Inl\<close> standing for a raised exception.
\<close>

subsection \<open>Python strings\<close>

definition lower_char :: "char \<Rightarrow> char" where
  "lower_char c =
     (let n = (of_char c :: nat) in if 65 \<le> n \<and> n \<le> 90 then char_of (n + 32) else c)"

definition upper_char :: "char \<Rightarrow> char" where
  "upper_char c =
     (let n = (of_char c :: nat) in if 97 \<le> n \<and> n \<le> 122 then char_of (n - 32) else c)"

definition is_upper_char :: "char \<Rightarrow> bool" where
  "is_upper_char c = (let n = (of_char c :: nat) in 65 \<le> n \<and> n \<le> 90)"

definition is_lower_char :: "char \<Rightarrow> bool" where
  "is_lower_char c = (let n = (of_char c :: nat) in 97 \<le> n \<and> n \<le> 122)"

definition is_alpha_char :: "char \<Rightarrow> bool" where
  "is_alpha_char c = (is_upper_char c \<or> is_lower_char c)"

definition is_space_char :: "char \<Rightarrow> bool" where
  "is_space_char c =
     (let n = (of_char c :: nat) in (9 \<le> n \<and> n \<le> 13) \<or> (28 \<le> n \<and> n \<le> 32))"

text \<open>\<^verbatim>\<open>s.lower()\<close>\<close>

definition py_lower :: "string \<Rightarrow> string" where
  "py_lower s = map lower_char s"

text \<open>
  \<^verbatim>\<open>s.isalpha()\<close> and \<^verbatim>\<open>s.isspace()\<close> on ASCII text: both are false on the empty
  string. They serve as the sample of Python's methods below; the normalizer takes the
  methods as parameters.
\<close>

definition py_isalpha :: "string \<Rightarrow> bool" where
  "py_isalpha s = (s \<noteq> [] \<and> list_all is_alpha_char s)"

definition py_isspace :: "string \<Rightarrow> bool" where
  "py_isspace s = (s \<noteq> [] \<and> list_all is_space_char s)"

text \<open>
  \<^verbatim>\<open>s.title()\<close>: a cased character is put in upper case when the character before it is
  not cased (or there is none), in lower case otherwise.
\<close>

fun title_from :: "bool \<Rightarrow> string \<Rightarrow> string" where
  "title_from prev_cased [] = []"
| "title_from prev_cased (c # cs) =
     (if is_lower_char c then
        (if prev_cased then c else upper_char c) # title_from True cs
      else if is_upper_char c then
        (if prev_cased then lower_char c else c) # title_from True cs
      else c # title_from False cs)"

definition py_title :: "string \<Rightarrow> string" where
  "py_title s = title_from False s"

text \<open>
  \<^verbatim>\<open>re.search(p, s)\<close> for a pattern \<open>p\<close> that is an alternation \<^verbatim>\<open>w1|w2|...\<close> of
  literal words (no other metacharacter occurs in the patterns of the source): some
  alternative occurs in \<open>s\<close> as a contiguous substring. The pattern is given as the list
  of its alternatives.
\<close>

definition re_search :: "string list \<Rightarrow> string \<Rightarrow> bool" where
  "re_search alts s = list_ex (\<lambda>w. sublist w s) alts"

subsection \<open>The rule-based classifier (\<^verbatim>\<open>theme-tracker.py\<close>, \<^verbatim>\<open>generate_video_context\<close>)\<close>

text \<open>
  \<^verbatim>\<open>brief_desc = description[:200] + "..." if len(description) > 200 else description\<close>
\<close>

definition brief_desc :: "string \<Rightarrow> string" where
  "brief_desc description =
     (if length description > 200 then take 200 description @ ''...'' else description)"

definition generate_video_context :: "string \<Rightarrow> string \<Rightarrow> string" where
  "generate_video_context title description =
     (let s = py_lower title @ py_lower (brief_desc description) in
      if re_search [''meditation'', ''mindfulness''] s then ''Meditation/Mindfulness practice''
      else if re_search [''buddhis'', ''zen'', ''tao''] s then ''Eastern philosophy''
      else if re_search [''christian'', ''jesus'', ''bible'', ''faith''] s
        then ''Christian spirituality''
      else if re_search [''islam'', ''muslim'', ''quran''] s then ''Islamic spirituality''
      else if re_search [''judaism'', ''jewish'', ''torah''] s then ''Jewish spirituality''
      else if re_search [''hindu'', ''vedanta'', ''yoga''] s then ''Hindu spirituality''
      else if re_search [''consciousness'', ''awareness''] s then ''Consciousness exploration''
      else if re_search [''psychedelic'', ''plant medicine'', ''ayahuasca'', ''dmt''] s
        then ''Psychedelic spirituality''
      else if re_search [''near death'', ''afterlife'', ''heaven''] s
        then ''Afterlife exploration''
      else if re_search [''science'', ''physics'', ''quantum''] s
        then ''Science and spirituality''
      else ''General spiritual content'')"

text \<open>
  The specification's view of the classifier: an ordered list of (pattern, label) rules,
  here the patterns and labels of the source's \<^verbatim>\<open>if\<close>/\<^verbatim>\<open>elif\<close> chain in their order,
  and the text the rules are matched against, the lowercased title followed by the
  lowercased first 200 characters of the description.
\<close>

definition rules :: "(string list \<times> string) list" where
  "rules =
     [([''meditation'', ''mindfulness''], ''Meditation/Mindfulness practice''),
      ([''buddhis'', ''zen'', ''tao''], ''Eastern philosophy''),
      ([''christian'', ''jesus'', ''bible'', ''faith''], ''Christian spirituality''),
      ([''islam'', ''muslim'', ''quran''], ''Islamic spirituality''),
      ([''judaism'', ''jewish'', ''torah''], ''Jewish spirituality''),
      ([''hindu'', ''vedanta'', ''yoga''], ''Hindu spirituality''),
      ([''consciousness'', ''awareness''], ''Consciousness exploration''),
      ([''psychedelic'', ''plant medicine'', ''ayahuasca'', ''dmt''], ''Psychedelic spirituality''),
      ([''near death'', ''afterlife'', ''heaven''], ''Afterlife exploration''),
      ([''science'', ''physics'', ''quantum''], ''Science and spirituality'')]"

definition classified_text :: "string \<Rightarrow> string \<Rightarrow> string" where
  "classified_text title description = py_lower title @ py_lower (take 200 description)"

fun first_match :: "(string list \<times> string) list \<Rightarrow> string \<Rightarrow> string \<Rightarrow> string" where
  "first_match [] dflt s = dflt"
| "first_match ((p, l) # rs) dflt s = (if re_search p s then l else first_match rs dflt s)"

subsection \<open>Errors, floats and counters\<close>

text \<open>
  The exceptions of the model: Python's \<^verbatim>\<open>IndexError\<close> with its message, and any other
  exception raised inside a library call, with its message.
\<close>

datatype error = IndexError string | LibraryError string

text \<open>A Python float: a real number, or NaN.\<close>

datatype pyfloat = NaN | Fin real

fun fadd :: "pyfloat \<Rightarrow> pyfloat \<Rightarrow> pyfloat" where
  "fadd (Fin x) (Fin y) = Fin (x + y)"
| "fadd _ _ = NaN"

text \<open>\<^verbatim>\<open>xs[i]\<close> for a non-negative constant index \<open>i\<close>.\<close>

definition idx :: "'a list \<Rightarrow> nat \<Rightarrow> error + 'a" where
  "idx xs i = (if i < length xs then Inr (xs ! i) else Inl (IndexError ''list index out of range''))"

definition bind_err :: "error + 'a \<Rightarrow> ('a \<Rightarrow> error + 'b) \<Rightarrow> error + 'b" where
  "bind_err m f = (case m of Inl e \<Rightarrow> Inl e | Inr x \<Rightarrow> f x)"

text \<open>
  A list display or comprehension whose element expressions may raise: the elements are
  evaluated from left to right and the first exception leaves the expression.
\<close>

fun sequence_err :: "(error + 'a) list \<Rightarrow> error + 'a list" where
  "sequence_err [] = Inr []"
| "sequence_err (m # ms) =
     bind_err m (\<lambda>x. bind_err (sequence_err ms) (\<lambda>xs. Inr (x # xs)))"

text \<open>
  \<^verbatim>\<open>collections.Counter\<close>: a dictionary from elements to counts. A Python dictionary
  keeps its keys in the order of their first insertion, and \<^verbatim>\<open>generate_titles\<close> reads
  that order, so a counter is an association list in insertion order.
\<close>

type_synonym 'a counter = "('a \<times> nat) list"

fun counter_incr :: "'a \<Rightarrow> 'a counter \<Rightarrow> 'a counter" where
  "counter_incr x [] = [(x, 1)]"
| "counter_incr x ((k, n) # c) =
     (if k = x then (k, n + 1) # c else (k, n) # counter_incr x c)"

text \<open>\<^verbatim>\<open>Counter(xs)\<close>, \<^verbatim>\<open>c.keys()\<close> and \<^verbatim>\<open>c[x]\<close> (0 for a missing key).\<close>

definition Counter :: "'a list \<Rightarrow> 'a counter" where
  "Counter xs = fold counter_incr xs []"

definition counter_keys :: "'a counter \<Rightarrow> 'a list" where
  "counter_keys c = map fst c"

definition counter_get :: "'a counter \<Rightarrow> 'a \<Rightarrow> nat" where
  "counter_get c x = (case map_of c x of None \<Rightarrow> 0 | Some n \<Rightarrow> n)"

text \<open>\<^verbatim>\<open>nltk.bigrams(xs)\<close>: the pairs of neighbours of \<open>xs\<close>, in order.\<close>

definition nltk_bigrams :: "'a list \<Rightarrow> ('a \<times> 'a) list" where
  "nltk_bigrams xs = zip xs (tl xs)"

subsection \<open>The text normalizer (\<^verbatim>\<open>ThemesTracker.py\<close>, \<^verbatim>\<open>preprocess_text\<close>)\<close>

text \<open>
  A text is a list of characters of any type \<open>'c\<close> (Python: Unicode code points), and its
  length counts characters. The methods \<^verbatim>\<open>lower\<close>, \<^verbatim>\<open>isalpha\<close> and \<^verbatim>\<open>isspace\<close> of
  Python's \<^verbatim>\<open>str\<close> are given by a record.
\<close>

record 'c str_methods =
  str_lower :: "'c list \<Rightarrow> 'c list"
  str_isalpha :: "'c list \<Rightarrow> bool"
  str_isspace :: "'c list \<Rightarrow> bool"

text \<open>
  The analyzer object holds the lemmatizer and the stopword set; the tokenizer is NLTK's
  \<^verbatim>\<open>word_tokenize\<close>. All three come from NLTK and are fields of the record below.
\<close>

record 'c analyzer =
  word_tokenize :: "'c list \<Rightarrow> error + 'c list list"
  lemmatize :: "'c list \<Rightarrow> error + 'c list"
  stop_words :: "'c list set"

text \<open>
  The argument of \<^verbatim>\<open>preprocess_text\<close>: a string, or another object given by its string
  representation \<^verbatim>\<open>str(text)\<close>.
\<close>

datatype 'c pyobject = Str "'c list" | NonStr "'c list"

fun py_str :: "'c pyobject \<Rightarrow> 'c list" where
  "py_str (Str s) = s"
| "py_str (NonStr s) = s"

definition preprocess_text ::
    "'c str_methods \<Rightarrow> 'c analyzer \<Rightarrow> 'c pyobject \<Rightarrow> 'c list list" where
  "preprocess_text py self text0 =
     (let text = py_str text0 in
      if text = [] \<or> str_isspace py text then []
      else
        (case word_tokenize self (str_lower py text) of
           Inl e \<Rightarrow> []
         | Inr tokens \<Rightarrow>
             (let tokens =
                filter (\<lambda>token. str_isalpha py token \<and> token \<notin> stop_words self \<and>
                                 length token > 1)
                  tokens
              in case sequence_err (map (lemmatize self) tokens) of
                   Inl e \<Rightarrow> []
                 | Inr tokens \<Rightarrow> tokens)))"

subsection \<open>The frequency aggregator (\<^verbatim>\<open>extract_themes\<close>)\<close>

text \<open>
  A row of the data frame of posts; \<open>post_text\<close> is \<open>None\<close> for a missing value, which
  \<^verbatim>\<open>fillna('')\<close> replaces by the empty string.
\<close>

record post =
  post_title :: string
  post_text :: "string option"

definition full_text :: "post \<Rightarrow> string" where
  "full_text p = post_title p @ '' '' @ (case post_text p of None \<Rightarrow> [] | Some t \<Rightarrow> t)"

text \<open>
  The body of \<^verbatim>\<open>extract_themes\<close> from the token sequences of the rows on: the loop
  extends \<^verbatim>\<open>all_tokens\<close> by each row's tokens, then both tables are counted from
  \<^verbatim>\<open>all_tokens\<close>.
\<close>

definition extract_themes_tokens ::
    "string list list \<Rightarrow> string counter \<times> (string \<times> string) counter" where
  "extract_themes_tokens seqs =
     (let all_tokens = fold (\<lambda>tokens all_tokens. all_tokens @ tokens) seqs [];
          word_freq = Counter all_tokens;
          bigrams = nltk_bigrams all_tokens;
          bigram_freq = Counter bigrams
      in (word_freq, bigram_freq))"

definition extract_themes ::
    "char str_methods \<Rightarrow> char analyzer \<Rightarrow> post list \<Rightarrow>
     string counter \<times> (string \<times> string) counter" where
  "extract_themes py self df =
     extract_themes_tokens (map (\<lambda>p. preprocess_text py self (Str (full_text p))) df)"

subsection \<open>The sentiment scorer (\<^verbatim>\<open>analyze_sentiment\<close>) and the mean\<close>

text \<open>
  \<open>polarity\<close> stands for \<^verbatim>\<open>TextBlob(str(text)).sentiment.polarity\<close>. The loop appends one
  score per row; an exception anywhere in the loop leaves it, and the handler returns
  \<^verbatim>\<open>[0] * len(df)\<close>. The column \<^verbatim>\<open>full_text\<close> read here is the one \<^verbatim>\<open>extract_themes\<close>
  has stored in the frame.
\<close>

fun sentiment_loop ::
    "(string \<Rightarrow> error + real) \<Rightarrow> string list \<Rightarrow> real list \<Rightarrow> error + real list" where
  "sentiment_loop polarity [] sentiments = Inr sentiments"
| "sentiment_loop polarity (t # ts) sentiments =
     (case polarity t of
        Inl e \<Rightarrow> Inl e
      | Inr p \<Rightarrow> sentiment_loop polarity ts (sentiments @ [p]))"

definition analyze_sentiment :: "(string \<Rightarrow> error + real) \<Rightarrow> post list \<Rightarrow> real list" where
  "analyze_sentiment polarity df =
     (case sentiment_loop polarity (map full_text df) [] of
        Inl e \<Rightarrow> replicate (length df) 0
      | Inr sentiments \<Rightarrow> sentiments)"

text \<open>
  The body of the loop over the selected subreddits in \<^verbatim>\<open>main\<close>, for the frame \<open>df\<close>
  fetched for one subreddit: an empty frame adds no entry to \<^verbatim>\<open>all_results\<close>. \<open>mean\<close>
  stands for \<^verbatim>\<open>Series.mean()\<close> of pandas, the mean in 64-bit floating point arithmetic.
\<close>

record sub_results =
  posts :: "post list"
  word_freq :: "string counter"
  bigram_freq :: "(string \<times> string) counter"
  sentiment :: pyfloat

definition analyze_subreddit ::
    "char str_methods \<Rightarrow> char analyzer \<Rightarrow> (string \<Rightarrow> error + real) \<Rightarrow>
     (real list \<Rightarrow> pyfloat) \<Rightarrow> post list \<Rightarrow> sub_results option" where
  "analyze_subreddit py self polarity mean df =
     (if df = [] then None
      else
        (let (wf, bf) = extract_themes py self df;
             s = analyze_sentiment polarity df
         in Some \<lparr>posts = df, word_freq = wf, bigram_freq = bf, sentiment = mean s\<rparr>))"

subsection \<open>The template synthesizer (\<^verbatim>\<open>generate_titles\<close>)\<close>

text \<open>
  The loop over \<^verbatim>\<open>results_dict.values()\<close>: from each entry, the first five keys of its
  word table and the first three keys of its bigram table are appended to
  \<^verbatim>\<open>all_words\<close> and \<^verbatim>\<open>all_bigrams\<close>, and its sentiment is added to
  \<^verbatim>\<open>overall_sentiment\<close>.
\<close>

fun titles_loop ::
    "sub_results list \<Rightarrow> string list \<times> (string \<times> string) list \<times> pyfloat \<Rightarrow>
     string list \<times> (string \<times> string) list \<times> pyfloat" where
  "titles_loop [] (all_words, all_bigrams, overall_sentiment) =
     (all_words, all_bigrams, overall_sentiment)"
| "titles_loop (r # rs) (all_words, all_bigrams, overall_sentiment) =
     (let words = take 5 (counter_keys (word_freq r));
          bigrams = take 3 (counter_keys (bigram_freq r))
      in titles_loop rs
           (all_words @ words, all_bigrams @ bigrams, fadd overall_sentiment (sentiment r)))"

text \<open>The ten templates, in their order; each index expression may raise.\<close>

definition titles_of :: "string list \<Rightarrow> (string \<times> string) list \<Rightarrow> (error + string) list" where
  "titles_of all_words all_bigrams =
     [bind_err (idx all_words 0) (\<lambda>w.
        Inr (''The Quest for Meaning: '' @ py_title w @ '' as a Path to Purpose'')),
      bind_err (idx all_words 1) (\<lambda>w1. bind_err (idx all_words 2) (\<lambda>w2.
        Inr (''From '' @ py_title w1 @ '' to '' @ py_title w2 @ '': A Journey of Self-Discovery''))),
      bind_err (idx all_words 3) (\<lambda>w.
        Inr (''Understanding '' @ py_title w @ '': The Key to Personal Growth'')),
      bind_err (idx all_bigrams 0) (\<lambda>b.
        Inr (''The Art of '' @ py_title (fst b) @ '' '' @ py_title (snd b) @
             '': A Philosophical Perspective'')),
      bind_err (idx all_words 4) (\<lambda>w.
        Inr (''Beyond '' @ py_title w @ '': Finding Authentic Purpose in Modern Life'')),
      bind_err (idx all_bigrams 1) (\<lambda>b.
        Inr (''The '' @ py_title (fst b) @ '' '' @ py_title (snd b) @
             '' Method: Transforming Self-Understanding'')),
      bind_err (idx all_words 0) (\<lambda>w.
        Inr (''Existential Wisdom: '' @ py_title w @ '' in the Age of Uncertainty'')),
      bind_err (idx all_words 2) (\<lambda>w.
        Inr (''The Power of '' @ py_title w @ '': Navigating Life'' @ [CHR 0x27] @
             ''s Big Questions'')),
      bind_err (idx all_bigrams 2) (\<lambda>b.
        Inr (py_title (fst b) @ '' '' @ py_title (snd b) @
             '': A Blueprint for Personal Excellence'')),
      bind_err (idx all_words 1) (\<lambda>w.
        Inr (''Mastering '' @ py_title w @ '': The Path to Authentic Living''))]"

text \<open>
  \<^verbatim>\<open>generate_titles(results_dict)\<close>; the dictionary is given by the list of its values, in
  insertion order.
\<close>

definition generate_titles :: "sub_results list \<Rightarrow> error + string list" where
  "generate_titles results_dict =
     (case titles_loop results_dict ([], [], Fin 0) of
        (all_words, all_bigrams, overall_sentiment) \<Rightarrow>
          sequence_err (titles_of all_words all_bigrams))"







subsection \<open>The cross-source combiner (\<^verbatim>\<open>theme-tracker.py\<close>, data source "Combined")\<close>

text \<open>
  A video as \<^verbatim>\<open>get_popular_videos\<close> builds it, with the two keys added later:
  \<^verbatim>\<open>context\<close> by the mining tab and \<^verbatim>\<open>source\<close> by the combiner (absent until then).
  Each of the three lists of the session state is built by its own call of
  \<^verbatim>\<open>get_popular_videos\<close>, which creates a new dictionary for every item, so no
  dictionary is shared between two lists, and the assignments of \<^verbatim>\<open>source\<close> are
  modelled on values.
\<close>

record video =
  video_title :: string
  channel :: string
  published_at :: string
  view_count :: int
  like_count :: int
  comment_count :: int
  video_id :: string
  thumbnail :: string
  video_description :: string
  video_context :: string
  video_source :: "string option"

text \<open>\<^verbatim>\<open>for v in vs: v['source'] = label\<close>\<close>

definition set_source :: "string \<Rightarrow> video list \<Rightarrow> video list" where
  "set_source label vs = map (\<lambda>v. v\<lparr>video_source := Some label\<rparr>) vs"

fun dedup_loop :: "video list \<Rightarrow> string set \<Rightarrow> video list \<Rightarrow> video list" where
  "dedup_loop [] video_ids_seen selected_videos = selected_videos"
| "dedup_loop (v # vs) video_ids_seen selected_videos =
     (if video_id v \<notin> video_ids_seen
      then dedup_loop vs (insert (video_id v) video_ids_seen) (selected_videos @ [v])
      else dedup_loop vs video_ids_seen selected_videos)"

definition combined_videos :: "video list \<Rightarrow> video list \<Rightarrow> video list \<Rightarrow> video list" where
  "combined_videos weekly monthly biannual =
     (let all_videos =
        set_source ''Last Week'' weekly @ set_source ''Last Month'' monthly @
        set_source ''Last 6 Months'' biannual
      in dedup_loop all_videos {} [])"

subsection \<open>A sample of the library functions\<close>

text \<open>
  For the evaluation of the functions at concrete texts: library functions that agree
  with Python, NLTK and pandas on the inputs used below, which are texts made of ASCII
  letters and single spaces. On such texts \<^verbatim>\<open>lower\<close>, \<^verbatim>\<open>isalpha\<close> and \<^verbatim>\<open>isspace\<close> are
  the ASCII functions above, and \<^verbatim>\<open>word_tokenize\<close> splits the text at its spaces.
  \<^verbatim>\<open>WordNetLemmatizer.lemmatize\<close> maps the word "us" to "u" (its rule for nouns strips the
  final s, and "u" is a noun of WordNet) and leaves the other words used below unchanged.
  "us" is not in NLTK's list of English stopwords, of which some members are listed here.
  The mean of a list of scores is exact where the sum and the quotient are floating point
  numbers, as for the scores used below.
\<close>

definition ascii_str :: "char str_methods" where
  "ascii_str = \<lparr>str_lower = py_lower, str_isalpha = py_isalpha, str_isspace = py_isspace\<rparr>"

fun split_spaces :: "string \<Rightarrow> string \<Rightarrow> string list" where
  "split_spaces cur [] = (if cur = [] then [] else [cur])"
| "split_spaces cur (c # cs) =
     (if is_space_char c
      then (if cur = [] then split_spaces [] cs else cur # split_spaces [] cs)
      else split_spaces (cur @ [c]) cs)"

definition nltk_sample :: "char analyzer" where
  "nltk_sample =
     \<lparr>word_tokenize = (\<lambda>s. Inr (split_spaces [] s)),
      lemmatize = (\<lambda>w. Inr (if w = ''us'' then ''u'' else w)),
      stop_words = {''i'', ''me'', ''my'', ''we'', ''our'', ''you'', ''the'', ''a'', ''an'', ''and'',
        ''of'', ''to'', ''in'', ''is'', ''are'', ''it''}\<rparr>"

definition mean_sample :: "real list \<Rightarrow> pyfloat" where
  "mean_sample xs = Fin (sum_list xs / real (length xs))"

section \<open>Properties\<close>

subsection \<open>The classifier\<close>

lemma subset_disjoint_empty: "A \<subseteq> B \<Longrightarrow> A \<subseteq> C \<Longrightarrow> B \<inter> C = {} \<Longrightarrow> A = {}"
  by auto

lemma sublist_append_disjoint:
  assumes "sublist w (s @ t)" and "set w \<inter> set t = {}"
  shows "sublist w s"
proof -
  from assms(1) obtain ps ss where e: "s @ t = ps @ w @ ss"
    unfolding sublist_def by blast
  then obtain us where
    "(s = ps @ us \<and> us @ t = w @ ss) \<or> (s @ us = ps \<and> t = us @ w @ ss)"
    unfolding append_eq_append_conv2 by blast
  then show ?thesis
  proof (elim disjE conjE)
    assume s: "s = ps @ us" and "us @ t = w @ ss"
    then obtain vs where
      "(us = w @ vs \<and> vs @ t = ss) \<or> (us @ vs = w \<and> t = vs @ ss)"
      unfolding append_eq_append_conv2 by blast
    then show ?thesis
    proof (elim disjE conjE)
      assume "us = w @ vs"
      with s have "s = ps @ w @ vs" by simp
      then show ?thesis unfolding sublist_def by blast
    next
      assume w: "us @ vs = w" and t: "t = vs @ ss"
      have "set vs \<subseteq> set w" using w by auto
      moreover have "set vs \<subseteq> set t" using t by auto
      ultimately have "set vs = {}" using assms(2) by (rule subset_disjoint_empty)
      then have "us = w" using w by simp
      with s have "s = ps @ w @ []" by simp
      then show ?thesis unfolding sublist_def by blast
    qed
  next
    assume "t = us @ w @ ss"
    then have "set w \<subseteq> set t" by auto
    with subset_refl have "set w = {}" using assms(2) by (rule subset_disjoint_empty)
    then have "w = []" by simp
    then show ?thesis by simp
  qed
qed

lemma re_search_append_disjoint:
  assumes "\<forall>w \<in> set alts. set w \<inter> set t = {}"
  shows "re_search alts (s @ t) = re_search alts s"
proof -
  have "sublist w (s @ t) = sublist w s" if "w \<in> set alts" for w
  proof
    assume "sublist w (s @ t)"
    moreover from assms that have "set w \<inter> set t = {}" by blast
    ultimately show "sublist w s" by (rule sublist_append_disjoint)
  next
    assume "sublist w s"
    then show "sublist w (s @ t)" by (simp only: sublist_append simp_thms)
  qed
  then show ?thesis by (simp add: re_search_def list_ex_iff)
qed

lemma first_match_append_disjoint:
  assumes "\<forall>r \<in> set rs. \<forall>w \<in> set (fst r). set w \<inter> set t = {}"
  shows "first_match rs dflt (s @ t) = first_match rs dflt s"
  using assms
proof (induction rs)
  case Nil
  then show ?case by simp
next
  case (Cons r rs)
  obtain p l where r: "r = (p, l)" by (cases r)
  from Cons.prems r have "\<forall>w \<in> set p. set w \<inter> set t = {}" by simp
  then have "re_search p (s @ t) = re_search p s" by (rule re_search_append_disjoint)
  moreover from Cons have "first_match rs dflt (s @ t) = first_match rs dflt s" by simp
  ultimately show ?case using r by simp
qed

lemma rules_no_dot: "\<forall>r \<in> set rules. \<forall>w \<in> set (fst r). set w \<inter> set ''...'' = {}"
  by (simp add: rules_def)

lemma py_lower_brief_desc:
  "py_lower (brief_desc description) =
   (if length description > 200 then py_lower (take 200 description) @ ''...''
    else py_lower (take 200 description))"
  by (simp add: brief_desc_def py_lower_def lower_char_def)

lemma generate_video_context_unfold:
  "generate_video_context title description =
   first_match rules ''General spiritual content''
     (py_lower title @ py_lower (brief_desc description))"
  by (simp add: generate_video_context_def rules_def Let_def)

lemma generate_video_context_first_match:
  "generate_video_context title description =
   first_match rules ''General spiritual content'' (classified_text title description)"
proof (cases "length description > 200")
  case True
  have "first_match rules ''General spiritual content''
          ((py_lower title @ py_lower (take 200 description)) @ ''...'') =
        first_match rules ''General spiritual content''
          (py_lower title @ py_lower (take 200 description))"
    using rules_no_dot by (rule first_match_append_disjoint)
  with True show ?thesis
    by (simp only: generate_video_context_unfold py_lower_brief_desc classified_text_def
        if_True append_assoc)
next
  case False
  then show ?thesis
    by (simp only: generate_video_context_unfold py_lower_brief_desc classified_text_def
        if_False)
qed

lemma first_match_nth:
  "i < length rs \<Longrightarrow> re_search (fst (rs ! i)) s \<Longrightarrow>
   \<forall>j<i. \<not> re_search (fst (rs ! j)) s \<Longrightarrow> first_match rs dflt s = snd (rs ! i)"
proof (induction rs arbitrary: i)
  case Nil
  then show ?case by simp
next
  case (Cons r rs)
  obtain p l where r: "r = (p, l)" by (cases r)
  show ?case
  proof (cases i)
    case 0
    with Cons.prems r show ?thesis by simp
  next
    case (Suc k)
    from Cons.prems(3) Suc have "\<not> re_search (fst ((r # rs) ! 0)) s" by blast
    then have np: "\<not> re_search p s" using r by simp
    have "\<forall>j<k. \<not> re_search (fst (rs ! j)) s"
    proof (intro allI impI)
      fix j assume "j < k"
      then have "Suc j < i" using Suc by simp
      with Cons.prems(3) have "\<not> re_search (fst ((r # rs) ! Suc j)) s" by blast
      then show "\<not> re_search (fst (rs ! j)) s" by simp
    qed
    with Cons.IH [of k] Cons.prems Suc have "first_match rs dflt s = snd (rs ! k)" by simp
    with np r Suc show ?thesis by simp
  qed
qed

lemma first_match_default:
  "\<forall>r \<in> set rs. \<not> re_search (fst r) s \<Longrightarrow> first_match rs dflt s = dflt"
  by (induction rs) auto

text \<open>
  Claim C7. The classifier returns the label of the first rule, in the declared order,
  whose pattern occurs in the lowercased title followed by the lowercased first 200
  characters of the description: if rule \<open>i\<close> matches and no earlier rule does, the
  result is the label of rule \<open>i\<close>. In particular the title "I love meditation" with an
  empty description is labelled "Meditation/Mindfulness practice".
\<close>

theorem classifier_first_match_wins:
  "(i < length rules \<and> re_search (fst (rules ! i)) (classified_text title description) \<and>
    (\<forall>j<i. \<not> re_search (fst (rules ! j)) (classified_text title description))
    \<longrightarrow> generate_video_context title description = snd (rules ! i)) \<and>
   generate_video_context ''I love meditation'' [] = ''Meditation/Mindfulness practice''"
proof (intro conjI impI)
  assume "i < length rules \<and> re_search (fst (rules ! i)) (classified_text title description) \<and>
    (\<forall>j<i. \<not> re_search (fst (rules ! j)) (classified_text title description))"
  then have "first_match rules ''General spiritual content'' (classified_text title description) =
    snd (rules ! i)"
    by (intro first_match_nth) simp_all
  then show "generate_video_context title description = snd (rules ! i)"
    by (simp only: generate_video_context_first_match)
next
  show "generate_video_context ''I love meditation'' [] = ''Meditation/Mindfulness practice''"
    by code_simp
qed

theorem classifier_first_match_wins_witness:
  "generate_video_context ''Zen and the Bible'' ''Faith and yoga'' = ''Eastern philosophy''"
proof -
  let ?t = "classified_text ''Zen and the Bible'' ''Faith and yoga''"
  have l: "(1::nat) < length rules" by (simp add: rules_def)
  have m: "re_search (fst (rules ! 1)) ?t" by code_simp
  have "\<not> re_search (fst (rules ! 0)) ?t" by code_simp
  then have n: "\<forall>j<1. \<not> re_search (fst (rules ! j)) ?t" by simp
  have "generate_video_context ''Zen and the Bible'' ''Faith and yoga'' = snd (rules ! 1)"
    using classifier_first_match_wins [of 1 "''Zen and the Bible''" "''Faith and yoga''"] l m n
    by blast
  also have "snd (rules ! 1) = ''Eastern philosophy''" by (simp add: rules_def)
  finally show ?thesis .
qed

text \<open>
  Claim C6, as stated, fails: for the title "random topic" and the description "nothing
  relevant" no pattern matches, and the label returned is "General spiritual content",
  not "general".
\<close>

theorem classifier_default_counterexample:
  "generate_video_context ''random topic'' ''nothing relevant'' = ''General spiritual content'' \<and>
   generate_video_context ''random topic'' ''nothing relevant'' \<noteq> ''general''"
  by code_simp

text \<open>
  Claim C6, amended. When no pattern of the rules matches the lowercased title followed
  by the lowercased first 200 characters of the description, the classifier returns the
  default label "General spiritual content".
\<close>

theorem classifier_default:
  "(\<forall>r \<in> set rules. \<not> re_search (fst r) (classified_text title description)) \<Longrightarrow>
   generate_video_context title description = ''General spiritual content''"
  by (simp only: generate_video_context_first_match first_match_default)

theorem classifier_default_witness:
  "generate_video_context ''random topic'' ''nothing relevant'' = ''General spiritual content''"
proof -
  have "\<forall>r \<in> set rules.
          \<not> re_search (fst r) (classified_text ''random topic'' ''nothing relevant'')"
    by code_simp
  then show ?thesis by (rule classifier_default)
qed

subsection \<open>Counters and the frequency aggregator\<close>

lemma counter_get_incr:
  "counter_get (counter_incr y c) x = counter_get c x + (if x = y then 1 else 0)"
  by (induction c) (auto simp: counter_get_def)

lemma counter_get_fold:
  "counter_get (fold counter_incr xs c) x = counter_get c x + count_list xs x"
  by (induction xs arbitrary: c) (auto simp: counter_get_incr)

lemma counter_get_Counter: "counter_get (Counter xs) x = count_list xs x"
proof -
  have "counter_get [] x = 0" by (simp add: counter_get_def)
  then show ?thesis by (simp only: Counter_def counter_get_fold add_0)
qed

lemma fold_extend: "fold (\<lambda>tokens all_tokens. all_tokens @ tokens) seqs acc = acc @ concat seqs"
  by (induction seqs arbitrary: acc) simp_all

lemma extract_themes_tokens_eq:
  "extract_themes_tokens seqs =
   (Counter (concat seqs), Counter (nltk_bigrams (concat seqs)))"
  by (simp add: extract_themes_tokens_def fold_extend Let_def)

lemma count_list_card: "count_list ys y = card {i. i < length ys \<and> ys ! i = y}"
proof -
  have "count_list ys y = length (filter (\<lambda>x. x = y) ys)"
    by (induction ys) simp_all
  then show ?thesis by (simp add: length_filter_conv_card)
qed

lemma bigram_positions:
  "{i. i < length (nltk_bigrams xs) \<and> nltk_bigrams xs ! i = (a, b)} =
   {i. Suc i < length xs \<and> xs ! i = a \<and> xs ! Suc i = b}"
proof -
  have "i < length (nltk_bigrams xs) \<longleftrightarrow> Suc i < length xs" for i
    by (auto simp: nltk_bigrams_def)
  moreover have "nltk_bigrams xs ! i = (xs ! i, xs ! Suc i)" if "Suc i < length xs" for i
    using that by (simp add: nltk_bigrams_def nth_tl)
  ultimately show ?thesis by auto
qed

text \<open>
  Claim C1, as stated, fails: for the token sequences [a, b] and [c, d] of two items,
  the bigram table counts the pair (b, c), which spans the two items.
\<close>

theorem bigrams_span_items_counterexample:
  "counter_get (snd (extract_themes_tokens [[''a'', ''b''], [''c'', ''d'']])) (''b'', ''c'') = 1"
  by code_simp

text \<open>
  Claim C1, amended. The bigram table counts the ordered pairs of tokens that are
  adjacent in the concatenation, in item order, of all the items' token sequences: the
  count of a pair (a, b) is the number of positions of that concatenation at which a is
  followed by b. A pair made of the last token of one item and the first token of the
  next is counted too: for [a, b], [c, d] the table holds (a, b), (b, c) and (c, d), each
  once.
\<close>

theorem bigrams_of_concatenation:
  "counter_get (snd (extract_themes_tokens seqs)) (a, b) =
     card {i. Suc i < length (concat seqs) \<and> concat seqs ! i = a \<and> concat seqs ! Suc i = b} \<and>
   snd (extract_themes_tokens [[''a'', ''b''], [''c'', ''d'']]) =
     [((''a'', ''b''), 1), ((''b'', ''c''), 1), ((''c'', ''d''), 1)]"
proof
  show "counter_get (snd (extract_themes_tokens seqs)) (a, b) =
     card {i. Suc i < length (concat seqs) \<and> concat seqs ! i = a \<and> concat seqs ! Suc i = b}"
    by (simp only: extract_themes_tokens_eq snd_conv counter_get_Counter count_list_card
        bigram_positions)
next
  show "snd (extract_themes_tokens [[''a'', ''b''], [''c'', ''d'']]) =
     [((''a'', ''b''), 1), ((''b'', ''c''), 1), ((''c'', ''d''), 1)]"
    by code_simp
qed

subsection \<open>The template synthesizer\<close>

lemma titles_loop_eq:
  "titles_loop rs (ws, bs, s) =
   (ws @ concat (map (\<lambda>r. take 5 (counter_keys (word_freq r))) rs),
    bs @ concat (map (\<lambda>r. take 3 (counter_keys (bigram_freq r))) rs),
    foldl fadd s (map sentiment rs))"
  by (induction rs arbitrary: ws bs s) (simp_all add: Let_def)

lemma generate_titles_eq:
  "generate_titles rs =
   sequence_err
     (titles_of (concat (map (\<lambda>r. take 5 (counter_keys (word_freq r))) rs))
        (concat (map (\<lambda>r. take 3 (counter_keys (bigram_freq r))) rs)))"
  by (simp add: generate_titles_def titles_loop_eq)

lemma sequence_err_Inl:
  "\<exists>m \<in> set ms. m = Inl e \<Longrightarrow> \<forall>m \<in> set ms. \<forall>e'. m = Inl e' \<longrightarrow> e' = e \<Longrightarrow>
   sequence_err ms = Inl e"
proof (induction ms)
  case Nil
  then show ?case by simp
next
  case (Cons m ms)
  show ?case
  proof (cases m)
    case (Inl e')
    with Cons.prems(2) have "e' = e" by simp
    with Inl show ?thesis by (simp add: bind_err_def)
  next
    case (Inr x)
    with Cons.prems(1) have "\<exists>m \<in> set ms. m = Inl e" by auto
    moreover from Cons.prems(2) have "\<forall>m \<in> set ms. \<forall>e'. m = Inl e' \<longrightarrow> e' = e" by simp
    ultimately have "sequence_err ms = Inl e" by (rule Cons.IH)
    with Inr show ?thesis by (simp add: bind_err_def)
  qed
qed

lemma sequence_err_Inr:
  "\<forall>m \<in> set ms. \<exists>x. m = Inr x \<Longrightarrow> \<exists>xs. sequence_err ms = Inr xs \<and> length xs = length ms"
proof (induction ms)
  case Nil
  then show ?case by simp
next
  case (Cons m ms)
  then obtain x where "m = Inr x" by auto
  moreover from Cons obtain xs where "sequence_err ms = Inr xs" "length xs = length ms" by auto
  ultimately show ?case by (simp add: bind_err_def)
qed

lemma titles_of_errors:
  "\<forall>m \<in> set (titles_of ws bs). \<forall>e'. m = Inl e' \<longrightarrow> e' = IndexError ''list index out of range''"
  by (auto simp: titles_of_def idx_def bind_err_def split: if_splits)

lemma titles_of_short:
  assumes "length ws < 5 \<or> length bs < 3"
  shows "\<exists>m \<in> set (titles_of ws bs). m = Inl (IndexError ''list index out of range'')"
proof -
  from assms consider "length ws < 5" | "length bs < 3" by blast
  then show ?thesis
  proof cases
    case 1
    then have "titles_of ws bs ! 4 = Inl (IndexError ''list index out of range'')"
      by (simp add: titles_of_def idx_def bind_err_def)
    moreover have "4 < length (titles_of ws bs)" by (simp add: titles_of_def)
    ultimately show ?thesis by (metis nth_mem)
  next
    case 2
    then have "titles_of ws bs ! 8 = Inl (IndexError ''list index out of range'')"
      by (simp add: titles_of_def idx_def bind_err_def)
    moreover have "8 < length (titles_of ws bs)" by (simp add: titles_of_def)
    ultimately show ?thesis by (metis nth_mem)
  qed
qed

lemma titles_of_enough:
  assumes "5 \<le> length ws" and "3 \<le> length bs"
  shows "\<forall>m \<in> set (titles_of ws bs). \<exists>x. m = Inr x"
proof -
  from assms have "ws \<noteq> []" "bs \<noteq> []" by auto
  with assms show ?thesis by (simp add: titles_of_def idx_def bind_err_def)
qed

lemma length_titles_of: "length (titles_of ws bs) = 10"
  by (simp add: titles_of_def)

text \<open>
  Claim C2, as stated, fails: for a single source whose tables hold one word and no
  bigram, the synthesizer fails with Python's \<^verbatim>\<open>IndexError\<close>, whose message "list index
  out of range" names no slot; the code has no \<^verbatim>\<open>InsufficientDataError\<close>.
\<close>

theorem generate_titles_index_error_counterexample:
  "generate_titles
     [\<lparr>posts = [\<lparr>post_title = ''Purpose'', post_text = None\<rparr>],
       word_freq = [(''purpose'', 1)], bigram_freq = [], sentiment = Fin 0\<rparr>] =
   Inl (IndexError ''list index out of range'')"
  by code_simp

text \<open>
  Claim C2, amended. When the sources supply fewer than five terms or fewer than three
  bigrams in all, the synthesizer fails with Python's \<^verbatim>\<open>IndexError\<close> (message "list index
  out of range"), and returns no title list; with at least five terms and three bigrams
  it returns its ten titles.
\<close>

theorem generate_titles_insufficient:
  assumes "titles_loop results_dict ([], [], Fin 0) = (all_words, all_bigrams, overall_sentiment)"
  shows "(length all_words < 5 \<or> length all_bigrams < 3 \<longrightarrow>
            generate_titles results_dict = Inl (IndexError ''list index out of range'')) \<and>
         (5 \<le> length all_words \<and> 3 \<le> length all_bigrams \<longrightarrow>
            (\<exists>titles. generate_titles results_dict = Inr titles \<and> length titles = 10))"
proof -
  have g: "generate_titles results_dict = sequence_err (titles_of all_words all_bigrams)"
    using assms by (simp add: generate_titles_def)
  show ?thesis
  proof (intro conjI impI)
    assume "length all_words < 5 \<or> length all_bigrams < 3"
    then have "\<exists>m \<in> set (titles_of all_words all_bigrams).
                 m = Inl (IndexError ''list index out of range'')"
      by (rule titles_of_short)
    then have "sequence_err (titles_of all_words all_bigrams) =
               Inl (IndexError ''list index out of range'')"
      using titles_of_errors by (rule sequence_err_Inl)
    with g show "generate_titles results_dict = Inl (IndexError ''list index out of range'')"
      by simp
  next
    assume "5 \<le> length all_words \<and> 3 \<le> length all_bigrams"
    then have "\<forall>m \<in> set (titles_of all_words all_bigrams). \<exists>x. m = Inr x"
      using titles_of_enough [of all_words all_bigrams] by blast
    then have "\<exists>xs. sequence_err (titles_of all_words all_bigrams) = Inr xs \<and>
                 length xs = length (titles_of all_words all_bigrams)"
      by (rule sequence_err_Inr)
    with g show "\<exists>titles. generate_titles results_dict = Inr titles \<and> length titles = 10"
      by (simp add: length_titles_of)
  qed
qed

theorem generate_titles_insufficient_witness:
  "generate_titles
     [\<lparr>posts = [\<lparr>post_title = ''Finding purpose and growth'', post_text = None\<rparr>],
       word_freq = [(''finding'', 1), (''purpose'', 1), (''growth'', 1)],
       bigram_freq = [((''finding'', ''purpose''), 1), ((''purpose'', ''growth''), 1)],
       sentiment = Fin 0\<rparr>] =
   Inl (IndexError ''list index out of range'')"
proof -
  let ?rs = "[\<lparr>posts = [\<lparr>post_title = ''Finding purpose and growth'', post_text = None\<rparr>],
       word_freq = [(''finding'', 1), (''purpose'', 1), (''growth'', 1)],
       bigram_freq = [((''finding'', ''purpose''), 1), ((''purpose'', ''growth''), 1)],
       sentiment = Fin 0\<rparr>]"
  let ?ws = "[''finding'', ''purpose'', ''growth'']"
  let ?bs = "[(''finding'', ''purpose''), (''purpose'', ''growth'')]"
  have l: "titles_loop ?rs ([], [], Fin 0) = (?ws, ?bs, Fin 0)"
    by (simp add: counter_keys_def)
  have s: "length ?ws < 5 \<or> length ?bs < 3" by simp
  from generate_titles_insufficient [OF l] s show ?thesis by blast
qed




text \<open>
  Claim C10. The titles do not depend on the sentiment: two dictionaries of results
  whose sources have the same word tables and the same bigram tables give the same
  outcome of \<^verbatim>\<open>generate_titles\<close> (the same list of titles, or the same error), whatever
  their sentiments are.
\<close>

theorem titles_independent_of_sentiment:
  assumes "map word_freq rs = map word_freq rs'"
    and "map bigram_freq rs = map bigram_freq rs'"
  shows "generate_titles rs = generate_titles rs'"
proof -
  have "concat (map (\<lambda>r. take 5 (counter_keys (word_freq r))) rs) =
        concat (map (\<lambda>c. take 5 (counter_keys c)) (map word_freq rs))"
    by (simp add: comp_def)
  also have "\<dots> = concat (map (\<lambda>c. take 5 (counter_keys c)) (map word_freq rs'))"
    by (simp only: assms(1))
  also have "\<dots> = concat (map (\<lambda>r. take 5 (counter_keys (word_freq r))) rs')"
    by (simp add: comp_def)
  finally have w: "concat (map (\<lambda>r. take 5 (counter_keys (word_freq r))) rs) =
        concat (map (\<lambda>r. take 5 (counter_keys (word_freq r))) rs')" .
  have "concat (map (\<lambda>r. take 3 (counter_keys (bigram_freq r))) rs) =
        concat (map (\<lambda>c. take 3 (counter_keys c)) (map bigram_freq rs))"
    by (simp add: comp_def)
  also have "\<dots> = concat (map (\<lambda>c. take 3 (counter_keys c)) (map bigram_freq rs'))"
    by (simp only: assms(2))
  also have "\<dots> = concat (map (\<lambda>r. take 3 (counter_keys (bigram_freq r))) rs')"
    by (simp add: comp_def)
  finally have b: "concat (map (\<lambda>r. take 3 (counter_keys (bigram_freq r))) rs) =
        concat (map (\<lambda>r. take 3 (counter_keys (bigram_freq r))) rs')" .
  show ?thesis by (simp only: generate_titles_eq w b)
qed

theorem titles_independent_of_sentiment_witness:
  "generate_titles
     [\<lparr>posts = [], word_freq = [(''find'', 1), (''purpose'', 2), (''growth'', 2), (''mindset'', 1),
         (''life'', 1)],
       bigram_freq = [((''find'', ''purpose''), 1), ((''purpose'', ''purpose''), 1),
         ((''purpose'', ''growth''), 1)],
       sentiment = Fin (1 / 2)\<rparr>] =
   generate_titles
     [\<lparr>posts = [], word_freq = [(''find'', 1), (''purpose'', 2), (''growth'', 2), (''mindset'', 1),
         (''life'', 1)],
       bigram_freq = [((''find'', ''purpose''), 1), ((''purpose'', ''purpose''), 1),
         ((''purpose'', ''growth''), 1)],
       sentiment = Fin (- 1 / 4)\<rparr>]"
  by (rule titles_independent_of_sentiment) simp_all

subsection \<open>The sentiment scorer and the mean\<close>

lemma sentiment_loop_ok:
  "\<forall>t \<in> set ts. \<exists>x. polarity t = Inr x \<Longrightarrow>
   map Inr (projr (sentiment_loop polarity ts acc)) = map Inr acc @ map polarity ts \<and>
   \<not> isl (sentiment_loop polarity ts acc)"
proof (induction ts arbitrary: acc)
  case Nil
  then show ?case by simp
next
  case (Cons t ts)
  then obtain x where x: "polarity t = Inr x" by auto
  from Cons.prems have "\<forall>t \<in> set ts. \<exists>x. polarity t = Inr x" by simp
  from Cons.IH [OF this, of "acc @ [x]"] x show ?case by simp
qed

lemma sentiment_loop_fail:
  "\<exists>t \<in> set ts. \<exists>e. polarity t = Inl e \<Longrightarrow> isl (sentiment_loop polarity ts acc)"
proof (induction ts arbitrary: acc)
  case Nil
  then show ?case by simp
next
  case (Cons t ts)
  show ?case
  proof (cases "polarity t")
    case (Inl e)
    then show ?thesis by simp
  next
    case (Inr x)
    with Cons.prems have "\<exists>t \<in> set ts. \<exists>e. polarity t = Inl e" by auto
    from Cons.IH [OF this, of "acc @ [x]"] Inr show ?thesis by simp
  qed
qed

lemma analyze_sentiment_fail:
  assumes "\<exists>p \<in> set df. \<exists>e. polarity (full_text p) = Inl e"
  shows "analyze_sentiment polarity df = replicate (length df) 0"
proof -
  from assms have "\<exists>t \<in> set (map full_text df). \<exists>e. polarity t = Inl e" by auto
  then have "isl (sentiment_loop polarity (map full_text df) [])" by (rule sentiment_loop_fail)
  then show ?thesis by (auto simp: analyze_sentiment_def isl_def)
qed

lemma analyze_sentiment_ok:
  assumes "\<forall>p \<in> set df. \<exists>x. polarity (full_text p) = Inr x"
  shows "map Inr (analyze_sentiment polarity df) = map (\<lambda>p. polarity (full_text p)) df"
proof -
  from assms have "\<forall>t \<in> set (map full_text df). \<exists>x. polarity t = Inr x" by auto
  from sentiment_loop_ok [OF this, of "[]"]
  have m: "map Inr (projr (sentiment_loop polarity (map full_text df) [])) =
           map polarity (map full_text df)"
    and i: "\<not> isl (sentiment_loop polarity (map full_text df) [])" by simp_all
  from i have "analyze_sentiment polarity df = projr (sentiment_loop polarity (map full_text df) [])"
    by (cases "sentiment_loop polarity (map full_text df) []") (simp_all add: analyze_sentiment_def)
  with m show ?thesis by (simp add: comp_def)
qed

lemma length_analyze_sentiment: "length (analyze_sentiment polarity df) = length df"
proof (cases "\<exists>p \<in> set df. \<exists>e. polarity (full_text p) = Inl e")
  case True
  then show ?thesis by (simp add: analyze_sentiment_fail)
next
  case False
  then have "\<forall>p \<in> set df. \<exists>x. polarity (full_text p) = Inr x"
    by (metis sum.exhaust)
  then have "map Inr (analyze_sentiment polarity df) = map (\<lambda>p. polarity (full_text p)) df"
    by (rule analyze_sentiment_ok)
  from arg_cong [OF this, of length] show ?thesis by simp
qed

text \<open>
  Claim C4, as stated, fails: when the polarity of the first of two items raises, the
  score of the second item, whose polarity is 1/2, is replaced by 0 as well.
\<close>

theorem sentiment_failure_counterexample:
  "analyze_sentiment (\<lambda>t. if t = ''bad '' then Inl (LibraryError ''failure'') else Inr (1 / 2))
     [\<lparr>post_title = ''bad'', post_text = None\<rparr>,
      \<lparr>post_title = ''good'', post_text = Some ''day''\<rparr>] = [0, 0]"
  by code_simp

text \<open>
  Claim C4, amended. A scoring failure on any item makes the scorer return the neutral
  score 0 for every item of the batch, one zero per item, and no error leaves the
  scorer; when no item fails, every item gets its own polarity.
\<close>

theorem sentiment_failure_zeroes_batch:
  "((\<exists>p \<in> set df. \<exists>e. polarity (full_text p) = Inl e) \<longrightarrow>
      analyze_sentiment polarity df = replicate (length df) 0) \<and>
   ((\<forall>p \<in> set df. \<exists>x. polarity (full_text p) = Inr x) \<longrightarrow>
      map Inr (analyze_sentiment polarity df) = map (\<lambda>p. polarity (full_text p)) df)"
  using analyze_sentiment_fail analyze_sentiment_ok by blast

theorem sentiment_failure_zeroes_batch_witness:
  "analyze_sentiment (\<lambda>t. if t = ''bad '' then Inl (LibraryError ''failure'') else Inr (1 / 2))
     [\<lparr>post_title = ''good'', post_text = Some ''day''\<rparr>,
      \<lparr>post_title = ''bad'', post_text = None\<rparr>,
      \<lparr>post_title = ''fine'', post_text = Some ''too''\<rparr>] = [0, 0, 0]"
proof -
  let ?pol = "\<lambda>t. if t = ''bad '' then Inl (LibraryError ''failure'') else Inr (1 / 2 :: real)"
  let ?df = "[\<lparr>post_title = ''good'', post_text = Some ''day''\<rparr>,
      \<lparr>post_title = ''bad'', post_text = None\<rparr>,
      \<lparr>post_title = ''fine'', post_text = Some ''too''\<rparr>]"
  have "\<exists>p \<in> set ?df. \<exists>e. ?pol (full_text p) = Inl e"
    by (simp add: full_text_def)
  with sentiment_failure_zeroes_batch [of ?df ?pol]
  have "analyze_sentiment ?pol ?df = replicate (length ?df) 0" by blast
  then show ?thesis by simp
qed

text \<open>
  Claim C8, as stated, fails: a source with no item gets no results, hence no mean
  sentiment 0.0; the guard on the empty frame skips it.
\<close>

theorem mean_of_empty_source_counterexample:
  "analyze_subreddit ascii_str nltk_sample (\<lambda>t. Inr 0) mean_sample [] = None"
  by (simp add: analyze_subreddit_def)

text \<open>
  Claim C8, amended. For a source with at least one item, the sentiment stored in its
  results is the mean, as pandas computes it in floating point arithmetic, of the
  per-item scores, one score per item, each the polarity of its item when no scoring
  fails. A source with no item gets no results at all: the mean of an empty sequence is
  never taken, and no value 0.0 is returned for it.
\<close>

theorem mean_sentiment_of_source:
  "analyze_subreddit py self polarity mean [] = None \<and>
   (df \<noteq> [] \<longrightarrow>
      (\<exists>r. analyze_subreddit py self polarity mean df = Some r \<and>
           sentiment r = mean (analyze_sentiment polarity df) \<and>
           length (analyze_sentiment polarity df) = length df \<and>
           analyze_sentiment polarity df \<noteq> [] \<and>
           ((\<forall>p \<in> set df. \<exists>x. polarity (full_text p) = Inr x) \<longrightarrow>
              map Inr (analyze_sentiment polarity df) = map (\<lambda>p. polarity (full_text p)) df)))"
proof (intro conjI impI)
  show "analyze_subreddit py self polarity mean [] = None" by (simp add: analyze_subreddit_def)
next
  assume ne: "df \<noteq> []"
  then have s: "analyze_sentiment polarity df \<noteq> []"
    using length_analyze_sentiment [of polarity df] by auto
  have o: "(\<forall>p \<in> set df. \<exists>x. polarity (full_text p) = Inr x) \<longrightarrow>
      map Inr (analyze_sentiment polarity df) = map (\<lambda>p. polarity (full_text p)) df"
    using analyze_sentiment_ok by blast
  obtain wf bf where e: "extract_themes py self df = (wf, bf)"
    by (cases "extract_themes py self df") blast
  let ?r = "\<lparr>posts = df, word_freq = wf, bigram_freq = bf,
             sentiment = mean (analyze_sentiment polarity df)\<rparr>"
  from ne e have "analyze_subreddit py self polarity mean df = Some ?r"
    by (simp add: analyze_subreddit_def)
  moreover have "sentiment ?r = mean (analyze_sentiment polarity df)" by simp
  ultimately obtain r where r: "analyze_subreddit py self polarity mean df = Some r"
    "sentiment r = mean (analyze_sentiment polarity df)" by blast
  with s o length_analyze_sentiment [of polarity df]
  show "\<exists>r. analyze_subreddit py self polarity mean df = Some r \<and>
           sentiment r = mean (analyze_sentiment polarity df) \<and>
           length (analyze_sentiment polarity df) = length df \<and>
           analyze_sentiment polarity df \<noteq> [] \<and>
           ((\<forall>p \<in> set df. \<exists>x. polarity (full_text p) = Inr x) \<longrightarrow>
              map Inr (analyze_sentiment polarity df) = map (\<lambda>p. polarity (full_text p)) df)"
    by blast
qed

theorem mean_sentiment_of_source_witness:
  "\<exists>r. analyze_subreddit ascii_str nltk_sample
         (\<lambda>t. Inr (if t = ''Join us '' then 1 else 1 / 2)) mean_sample
         [\<lparr>post_title = ''Join us'', post_text = None\<rparr>,
          \<lparr>post_title = ''Growth'', post_text = Some ''mindset''\<rparr>] = Some r \<and>
       sentiment r = Fin (3 / 4)"
proof -
  let ?pol = "\<lambda>t. Inr (if t = ''Join us '' then 1 else 1 / 2 :: real) :: error + real"
  let ?df = "[\<lparr>post_title = ''Join us'', post_text = None\<rparr>,
          \<lparr>post_title = ''Growth'', post_text = Some ''mindset''\<rparr>]"
  have s: "analyze_sentiment ?pol ?df = [1, 1 / 2]" by code_simp
  have "?df \<noteq> []" by simp
  with mean_sentiment_of_source [of ascii_str nltk_sample ?pol mean_sample ?df]
  obtain r where "analyze_subreddit ascii_str nltk_sample ?pol mean_sample ?df = Some r"
    "sentiment r = mean_sample (analyze_sentiment ?pol ?df)" by blast
  then have "analyze_subreddit ascii_str nltk_sample ?pol mean_sample ?df = Some r \<and>
      sentiment r = Fin (3 / 4)"
    by (simp add: s mean_sample_def)
  then show ?thesis by blast
qed

subsection \<open>The text normalizer\<close>

lemma sequence_err_map:
  "sequence_err (map f xs) = Inr ys \<Longrightarrow> y \<in> set ys \<Longrightarrow> \<exists>x \<in> set xs. f x = Inr y"
proof (induction xs arbitrary: ys)
  case Nil
  then show ?case by simp
next
  case (Cons x xs)
  from Cons.prems(1) obtain z zs where z: "f x = Inr z" "sequence_err (map f xs) = Inr zs"
    "ys = z # zs"
    by (auto simp: bind_err_def split: sum.splits)
  show ?case
  proof (cases "y = z")
    case True
    with z show ?thesis by simp
  next
    case False
    with Cons.prems(2) z have "y \<in> set zs" by simp
    with Cons.IH [OF z(2)] show ?thesis by auto
  qed
qed

text \<open>
  Claim C5, as stated, fails: the lemmatizer runs after the filter, and its results are
  not filtered again. For the text "Join us" the normalizer returns the tokens "join" and
  "u", the second of length 1.
\<close>

theorem preprocess_text_short_token_counterexample:
  "preprocess_text ascii_str nltk_sample (Str ''Join us'') = [''join'', ''u''] \<and>
   length ''u'' < (2::nat)"
  by code_simp

text \<open>
  Claim C5, amended. For every input (a string, or another value given by its string
  representation) the normalizer returns a sequence, never an error. Every token of the
  result is the lemma of a token of the lowercased text that is purely alphabetic, of
  length at least 2 and not in the stopword set. An empty or all-whitespace input yields
  the empty sequence, and so does a failure of the tokenizer.
\<close>

theorem preprocess_text_tokens:
  "(\<forall>t \<in> set (preprocess_text py self x).
      \<exists>tokens w. word_tokenize self (str_lower py (py_str x)) = Inr tokens \<and> w \<in> set tokens \<and>
        str_isalpha py w \<and> w \<notin> stop_words self \<and> 2 \<le> length w \<and> lemmatize self w = Inr t) \<and>
   (py_str x = [] \<or> str_isspace py (py_str x) \<longrightarrow> preprocess_text py self x = []) \<and>
   ((\<exists>e. word_tokenize self (str_lower py (py_str x)) = Inl e) \<longrightarrow>
      preprocess_text py self x = [])"
proof (intro conjI ballI impI)
  fix t
  assume t: "t \<in> set (preprocess_text py self x)"
  then have ne: "\<not> (py_str x = [] \<or> str_isspace py (py_str x))"
    by (auto simp: preprocess_text_def)
  from t ne obtain tokens where tok: "word_tokenize self (str_lower py (py_str x)) = Inr tokens"
    by (cases "word_tokenize self (str_lower py (py_str x))") (auto simp: preprocess_text_def)
  let ?kept = "filter (\<lambda>token. str_isalpha py token \<and> token \<notin> stop_words self \<and>
                                length token > 1) tokens"
  from t ne tok obtain ys where ys: "sequence_err (map (lemmatize self) ?kept) = Inr ys"
    and res: "preprocess_text py self x = ys"
    by (cases "sequence_err (map (lemmatize self) ?kept)") (auto simp: preprocess_text_def)
  from t res have "t \<in> set ys" by simp
  with ys obtain w where "w \<in> set ?kept" "lemmatize self w = Inr t"
    using sequence_err_map [of "lemmatize self" ?kept ys t] by blast
  then have "w \<in> set tokens \<and> str_isalpha py w \<and> w \<notin> stop_words self \<and> 2 \<le> length w \<and>
    lemmatize self w = Inr t" by auto
  with tok show "\<exists>tokens w. word_tokenize self (str_lower py (py_str x)) = Inr tokens \<and>
    w \<in> set tokens \<and> str_isalpha py w \<and> w \<notin> stop_words self \<and> 2 \<le> length w \<and>
    lemmatize self w = Inr t" by blast
next
  assume "py_str x = [] \<or> str_isspace py (py_str x)"
  then show "preprocess_text py self x = []" by (auto simp: preprocess_text_def)
next
  assume "\<exists>e. word_tokenize self (str_lower py (py_str x)) = Inl e"
  then show "preprocess_text py self x = []" by (auto simp: preprocess_text_def Let_def)
qed

theorem preprocess_text_tokens_witness:
  "\<exists>tokens w. word_tokenize nltk_sample (str_lower ascii_str (py_str (Str ''Join us''))) =
       Inr tokens \<and>
     w \<in> set tokens \<and> str_isalpha ascii_str w \<and> w \<notin> stop_words nltk_sample \<and> 2 \<le> length w \<and>
     lemmatize nltk_sample w = Inr ''u''"
proof -
  have "''u'' \<in> set (preprocess_text ascii_str nltk_sample (Str ''Join us''))" by code_simp
  with preprocess_text_tokens [of ascii_str nltk_sample "Str ''Join us''"] show ?thesis by blast
qed

subsection \<open>The cross-source combiner\<close>

lemma find_append_first:
  "List.find P (xs @ ys) = (case List.find P xs of None \<Rightarrow> List.find P ys | Some x \<Rightarrow> Some x)"
  by (induction xs) simp_all

lemma find_in_set: "List.find P xs = Some x \<Longrightarrow> x \<in> set xs \<and> P x"
  by (induction xs) (auto split: if_splits)

lemma dedup_loop_set:
  "set (dedup_loop vs seen sel) =
   set sel \<union> {v \<in> set vs. video_id v \<notin> seen \<and>
                 List.find (\<lambda>u. video_id u = video_id v) vs = Some v}"
proof (induction vs arbitrary: seen sel)
  case Nil
  then show ?case by simp
next
  case (Cons a vs)
  show ?case
  proof (cases "video_id a \<in> seen")
    case True
    have "{v \<in> set (a # vs). video_id v \<notin> seen \<and>
             List.find (\<lambda>u. video_id u = video_id v) (a # vs) = Some v} =
          {v \<in> set vs. video_id v \<notin> seen \<and>
             List.find (\<lambda>u. video_id u = video_id v) vs = Some v}"
      using True by auto
    with True Cons.IH [of seen sel] show ?thesis by simp
  next
    case False
    have "{v \<in> set (a # vs). video_id v \<notin> seen \<and>
             List.find (\<lambda>u. video_id u = video_id v) (a # vs) = Some v} =
          insert a {v \<in> set vs. video_id v \<notin> insert (video_id a) seen \<and>
             List.find (\<lambda>u. video_id u = video_id v) vs = Some v}"
      using False by auto
    with False Cons.IH [of "insert (video_id a) seen" "sel @ [a]"] show ?thesis by simp
  qed
qed

lemma dedup_loop_distinct:
  "distinct (map video_id sel) \<Longrightarrow> video_id ` set sel \<subseteq> seen \<Longrightarrow>
   distinct (map video_id (dedup_loop vs seen sel))"
proof (induction vs arbitrary: seen sel)
  case Nil
  then show ?case by simp
next
  case (Cons a vs)
  show ?case
  proof (cases "video_id a \<in> seen")
    case True
    with Cons.IH [of sel seen] Cons.prems show ?thesis by simp
  next
    case False
    with Cons.prems have "distinct (map video_id (sel @ [a]))" by auto
    moreover from Cons.prems have "video_id ` set (sel @ [a]) \<subseteq> insert (video_id a) seen"
      by auto
    ultimately have "distinct (map video_id (dedup_loop vs (insert (video_id a) seen) (sel @ [a])))"
      by (rule Cons.IH)
    with False show ?thesis by simp
  qed
qed

lemma dedup_loop_ids:
  "video_id ` set (dedup_loop vs seen sel) = video_id ` set sel \<union> (video_id ` set vs - seen)"
proof (induction vs arbitrary: seen sel)
  case Nil
  then show ?case by simp
next
  case (Cons a vs)
  show ?case
  proof (cases "video_id a \<in> seen")
    case True
    with Cons.IH [of seen sel] show ?thesis by auto
  next
    case False
    with Cons.IH [of "insert (video_id a) seen" "sel @ [a]"] show ?thesis by auto
  qed
qed

lemma set_source_ids: "video_id ` set (set_source label vs) = video_id ` set vs"
  by (auto simp: set_source_def image_iff)

lemma set_source_tag: "v \<in> set (set_source label vs) \<Longrightarrow> video_source v = Some label"
  by (auto simp: set_source_def)

lemma first_source_tag:
  assumes f: "List.find (\<lambda>u. video_id u = i)
      (set_source ''Last Week'' weekly @ set_source ''Last Month'' monthly @
       set_source ''Last 6 Months'' biannual) = Some v"
  shows "video_source v =
    Some (if i \<in> video_id ` set weekly then ''Last Week''
          else if i \<in> video_id ` set monthly then ''Last Month'' else ''Last 6 Months'')"
proof -
  let ?P = "\<lambda>u. video_id u = i"
  let ?W = "set_source ''Last Week'' weekly"
  let ?M = "set_source ''Last Month'' monthly"
  let ?B = "set_source ''Last 6 Months'' biannual"
  have none: "List.find ?P (set_source l xs) = None \<longleftrightarrow> i \<notin> video_id ` set xs" for l xs
  proof -
    have "List.find ?P (set_source l xs) = None \<longleftrightarrow> i \<notin> video_id ` set (set_source l xs)"
      by (auto simp: find_None_iff)
    then show ?thesis by (simp only: set_source_ids)
  qed
  show ?thesis
  proof (cases "i \<in> video_id ` set weekly")
    case True
    then obtain x where "List.find ?P ?W = Some x" using none [of "''Last Week''" weekly] by auto
    with f have "List.find ?P ?W = Some v" by (simp add: find_append_first)
    then have "v \<in> set ?W" by (simp add: find_in_set)
    with True show ?thesis by (simp add: set_source_tag)
  next
    case nw: False
    then have w: "List.find ?P ?W = None" using none [of "''Last Week''" weekly] by simp
    show ?thesis
    proof (cases "i \<in> video_id ` set monthly")
      case True
      then obtain x where "List.find ?P ?M = Some x"
        using none [of "''Last Month''" monthly] by auto
      with f w have "List.find ?P ?M = Some v" by (simp add: find_append_first)
      then have "v \<in> set ?M" by (simp add: find_in_set)
      with nw True show ?thesis by (simp add: set_source_tag)
    next
      case False
      then have "List.find ?P ?M = None" using none [of "''Last Month''" monthly] by simp
      with f w have "List.find ?P ?B = Some v" by (simp add: find_append_first)
      then have "v \<in> set ?B" by (simp add: find_in_set)
      with nw False show ?thesis by (simp add: set_source_tag)
    qed
  qed
qed

text \<open>
  Claim C9. The three sources are combined in the order last week, last month, last six
  months. Every identifier of an input video occurs exactly once in the combined list;
  the video kept for an identifier is the first one with that identifier in the
  concatenation of the tagged sources, and it carries the tag of the first source that
  holds the identifier.
\<close>

theorem combined_videos_dedup:
  "distinct (map video_id (combined_videos weekly monthly biannual)) \<and>
   video_id ` set (combined_videos weekly monthly biannual) =
     video_id ` (set weekly \<union> set monthly \<union> set biannual) \<and>
   (\<forall>v \<in> set (combined_videos weekly monthly biannual).
      List.find (\<lambda>u. video_id u = video_id v)
        (set_source ''Last Week'' weekly @ set_source ''Last Month'' monthly @
         set_source ''Last 6 Months'' biannual) = Some v \<and>
      video_source v =
        Some (if video_id v \<in> video_id ` set weekly then ''Last Week''
              else if video_id v \<in> video_id ` set monthly then ''Last Month''
              else ''Last 6 Months''))"
proof (intro conjI ballI)
  let ?all = "set_source ''Last Week'' weekly @ set_source ''Last Month'' monthly @
         set_source ''Last 6 Months'' biannual"
  have c: "combined_videos weekly monthly biannual = dedup_loop ?all {} []"
    by (simp add: combined_videos_def)
  show "distinct (map video_id (combined_videos weekly monthly biannual))"
    unfolding c by (rule dedup_loop_distinct) simp_all
  show "video_id ` set (combined_videos weekly monthly biannual) =
     video_id ` (set weekly \<union> set monthly \<union> set biannual)"
    unfolding c dedup_loop_ids by (simp add: image_Un set_source_ids Un_assoc)
  fix v
  assume "v \<in> set (combined_videos weekly monthly biannual)"
  then show f: "List.find (\<lambda>u. video_id u = video_id v) ?all = Some v"
    unfolding c dedup_loop_set by simp
  then show "video_source v =
        Some (if video_id v \<in> video_id ` set weekly then ''Last Week''
              else if video_id v \<in> video_id ` set monthly then ''Last Month''
              else ''Last 6 Months'')"
    by (rule first_source_tag)
qed

theorem combined_videos_dedup_witness:
  "map (\<lambda>v. (video_id v, video_source v))
     (combined_videos
        [\<lparr>video_title = ''Zen'', channel = ''c'', published_at = ''2025-01-01T00:00:00Z'',
          view_count = 10, like_count = 1, comment_count = 0, video_id = ''v1'',
          thumbnail = ''t'', video_description = ''d'', video_context = ''Eastern philosophy'',
          video_source = None\<rparr>]
        [\<lparr>video_title = ''Zen'', channel = ''c'', published_at = ''2025-01-01T00:00:00Z'',
          view_count = 12, like_count = 1, comment_count = 0, video_id = ''v1'',
          thumbnail = ''t'', video_description = ''d'', video_context = ''Eastern philosophy'',
          video_source = None\<rparr>,
         \<lparr>video_title = ''Yoga'', channel = ''c'', published_at = ''2025-01-02T00:00:00Z'',
          view_count = 5, like_count = 0, comment_count = 0, video_id = ''v2'',
          thumbnail = ''t'', video_description = ''d'', video_context = ''Hindu spirituality'',
          video_source = None\<rparr>]
        []) =
   [(''v1'', Some ''Last Week''), (''v2'', Some ''Last Month'')] \<and>
   distinct (map video_id
     (combined_videos
        [\<lparr>video_title = ''Zen'', channel = ''c'', published_at = ''2025-01-01T00:00:00Z'',
          view_count = 10, like_count = 1, comment_count = 0, video_id = ''v1'',
          thumbnail = ''t'', video_description = ''d'', video_context = ''Eastern philosophy'',
          video_source = None\<rparr>]
        [\<lparr>video_title = ''Zen'', channel = ''c'', published_at = ''2025-01-01T00:00:00Z'',
          view_count = 12, like_count = 1, comment_count = 0, video_id = ''v1'',
          thumbnail = ''t'', video_description = ''d'', video_context = ''Eastern philosophy'',
          video_source = None\<rparr>,
         \<lparr>video_title = ''Yoga'', channel = ''c'', published_at = ''2025-01-02T00:00:00Z'',
          view_count = 5, like_count = 0, comment_count = 0, video_id = ''v2'',
          thumbnail = ''t'', video_description = ''d'', video_context = ''Hindu spirituality'',
          video_source = None\<rparr>]
        []))"
proof
  show "map (\<lambda>v. (video_id v, video_source v))
     (combined_videos
        [\<lparr>video_title = ''Zen'', channel = ''c'', published_at = ''2025-01-01T00:00:00Z'',
          view_count = 10, like_count = 1, comment_count = 0, video_id = ''v1'',
          thumbnail = ''t'', video_description = ''d'', video_context = ''Eastern philosophy'',
          video_source = None\<rparr>]
        [\<lparr>video_title = ''Zen'', channel = ''c'', published_at = ''2025-01-01T00:00:00Z'',
          view_count = 12, like_count = 1, comment_count = 0, video_id = ''v1'',
          thumbnail = ''t'', video_description = ''d'', video_context = ''Eastern philosophy'',
          video_source = None\<rparr>,
         \<lparr>video_title = ''Yoga'', channel = ''c'', published_at = ''2025-01-02T00:00:00Z'',
          view_count = 5, like_count = 0, comment_count = 0, video_id = ''v2'',
          thumbnail = ''t'', video_description = ''d'', video_context = ''Hindu spirituality'',
          video_source = None\<rparr>]
        []) =
   [(''v1'', Some ''Last Week''), (''v2'', Some ''Last Month'')]"
    by code_simp
qed (simp add: combined_videos_dedup)

end
